theory Spec2Isabelle
  imports Main "HOL-Library.Word" "HOL-Library.Sublist"
begin

section \<open>Values of the JavaScript runtime\<close>

text \<open>
  A \<open>Buffer\<close> is a sequence of bytes. A JavaScript string is a sequence of UTF-16 code
  units; the two places where the content of such a string decides a branch (the decoded
  document text and the file name) use \<open>jsstring\<close>. Identifiers and messages that are only
  copied or concatenated are HOL strings.
\<close>

type_synonym byte = "8 word"
type_synonym jsstring = "nat list"

definition ascii :: "string \<Rightarrow> jsstring" where
  \<comment> \<open>a string literal of the source, as code units\<close>
  "ascii s = map of_char s"

definition Buffer_from :: "string \<Rightarrow> byte list" where
  \<comment> \<open>\<open>Buffer.from\<close> of an ASCII literal\<close>
  "Buffer_from s = map of_char s"

definition includes_str :: "jsstring \<Rightarrow> jsstring \<Rightarrow> bool" where
  \<comment> \<open>\<open>s.includes(searchString)\<close>: a contiguous occurrence\<close>
  "includes_str s searchString = sublist searchString s"

definition endsWith :: "jsstring \<Rightarrow> jsstring \<Rightarrow> bool" where
  \<comment> \<open>\<open>s.endsWith(searchString)\<close>\<close>
  "endsWith s searchString = suffix searchString s"

definition digit_char :: "nat \<Rightarrow> char" where
  "digit_char d = ''0123456789'' ! d"

function string_of_nat :: "nat \<Rightarrow> string" where
  \<comment> \<open>a non-negative integer inside a template literal\<close>
  "string_of_nat n =
     (if n < 10 then [digit_char n]
      else string_of_nat (n div 10) @ [digit_char (n mod 10)])"
  by pat_completeness auto
termination
  by (relation "measure id") auto

declare string_of_nat.simps [simp del]

text \<open>
  A thrown value: an \<open>Error\<close> object with its message. Every function of the source that
  can throw returns \<open>fault + 'a\<close>, with \<open>Inl\<close> for the throw.
\<close>

datatype fault = Fault string

text \<open>
  Truthiness of the optional values the source tests with \<open>!\<close>, \<open>&&\<close>, \<open>||\<close> and \<open>?:\<close>.
  \<open>None\<close> is \<open>undefined\<close>; the empty string and \<open>false\<close> are falsy.
\<close>

definition truthy_string :: "string option \<Rightarrow> bool" where
  "truthy_string x = (case x of None \<Rightarrow> False | Some s \<Rightarrow> s \<noteq> [])"

definition truthy_bool :: "bool option \<Rightarrow> bool" where
  "truthy_bool x = (case x of None \<Rightarrow> False | Some b \<Rightarrow> b)"

definition or_undefined :: "string option \<Rightarrow> string option" where
  \<comment> \<open>\<open>x || undefined\<close>\<close>
  "or_undefined x = (if truthy_string x then x else None)"

definition or_false :: "bool option \<Rightarrow> bool" where
  \<comment> \<open>\<open>x || false\<close>, for a boolean or absent \<open>x\<close>\<close>
  "or_false x = (case x of None \<Rightarrow> False | Some b \<Rightarrow> b)"

definition or_string :: "string option \<Rightarrow> string \<Rightarrow> string" where
  \<comment> \<open>\<open>x || 'literal'\<close>\<close>
  "or_string x d = (case x of None \<Rightarrow> d | Some s \<Rightarrow> if s = [] then d else s)"

section \<open>What the code takes from outside the repository\<close>

text \<open>
  The information dictionary that pdfjs-dist returns, restricted to the four fields the
  extractor reads.
\<close>

record pdf_info =
  Subject :: "string option"
  Creator :: "string option"
  Keywords :: "string option"
  Producer :: "string option"

text \<open>The recognised fields of the authority's JSON answer.\<close>

record checks =
  signatureValid :: "bool option"
  authorityValid :: "bool option"
  notRevoked :: "bool option"

text \<open>
  The \<open>institution\<close> and \<open>document\<close> objects are passed through as they are; the code
  reads one string property of each. An object is a map from property names to strings,
  \<open>{}\<close> is the empty map.
\<close>

type_synonym jsobject = "string \<rightharpoonup> string"

record authority_result =
  vr_status :: "string option"
  vr_valid :: "bool option"
  vr_checks :: "checks option"
  vr_institution :: "jsobject option"
  vr_document :: "jsobject option"
  vr_errors :: "string list option"
  vr_revokedAt :: "string option"
  vr_revokedBy :: "string option"
  vr_reason :: "string option"

text \<open>
  A \<open>Response\<close> of \<open>fetch\<close>: its status, and what \<open>json()\<close> gives (a throw on a body that
  is not JSON, \<open>None\<close> for the JSON value \<open>null\<close>, otherwise the object).
\<close>

record http_response =
  resp_status :: nat
  resp_json :: "fault + authority_result option"

definition ok :: "http_response \<Rightarrow> bool" where
  \<comment> \<open>\<open>Response.ok\<close> of the Fetch standard: a status in the range 200 to 299\<close>
  "ok r = (200 \<le> resp_status r \<and> resp_status r \<le> 299)"

text \<open>
  The upload as @fastify/multipart hands it over: \<open>request.file()\<close> throws, or gives
  \<open>undefined\<close>, or a part with \<open>toBuffer()\<close> and \<open>filename\<close>.
\<close>

record multipart_file =
  toBuffer :: "fault + byte list"
  filename :: jsstring

text \<open>
  The collaborators of one request. \<open>toString_utf8\<close> and \<open>toLowerCase\<close> are the runtime's
  \<open>Buffer.toString('utf-8')\<close> and \<open>String.prototype.toLowerCase\<close>; \<open>getMetadataInfo\<close> is
  pdfjs-dist (import, \<open>getDocument\<close>, \<open>getMetadata\<close>, then \<open>.info\<close>, which may be
  \<open>undefined\<close>); \<open>fetch\<close> is the call to the authority, by URL.
\<close>

record platform =
  toString_utf8 :: "byte list \<Rightarrow> jsstring"
  toLowerCase :: "jsstring \<Rightarrow> jsstring"
  getMetadataInfo :: "byte list \<Rightarrow> fault + pdf_info option"
  ACADCERT_API_URL :: "string option"
  fetch :: "string \<Rightarrow> fault + http_response"

text \<open>What differs from call to call: the two clock readings and the random bytes.\<close>

record per_call =
  date1 :: string
  date2 :: string
  randomBytes12 :: "byte list"

section \<open>PDFValidator\<close>

definition MAX_FILE_SIZE :: nat where
  "MAX_FILE_SIZE = 50 * 1024 * 1024"

definition PDF_MAGIC_NUMBER :: "byte list" where
  "PDF_MAGIC_NUMBER = Buffer_from ''%PDF-''"

record validation_result =
  valid :: bool
  error :: "string option"

definition validate :: "platform \<Rightarrow> byte list \<Rightarrow> jsstring \<Rightarrow> validation_result" where
  "validate pf buffer fname =
     (if length buffer > MAX_FILE_SIZE then
        \<lparr>valid = False,
         error = Some (''File too large. Maximum size is ''
                        @ string_of_nat (MAX_FILE_SIZE div 1024 div 1024) @ ''MB'')\<rparr>
      else if length buffer = 0 then
        \<lparr>valid = False, error = Some ''File is empty''\<rparr>
      else if take 5 buffer \<noteq> PDF_MAGIC_NUMBER then
        \<lparr>valid = False, error = Some ''Invalid file format. Only PDF files are accepted.''\<rparr>
      else if \<not> endsWith (toLowerCase pf fname) (ascii ''.pdf'') then
        \<lparr>valid = False, error = Some ''File must have .pdf extension''\<rparr>
      else \<lparr>valid = True, error = None\<rparr>)"

record scan_result =
  safe :: bool
  threats :: "string list option"

definition securityScan :: "platform \<Rightarrow> byte list \<Rightarrow> scan_result" where
  "securityScan pf buffer =
     (let pdfText = toLowerCase pf (toString_utf8 pf buffer);
          threats0 = [];
          threats1 = (if includes_str pdfText (ascii ''/javascript'') \<or> includes_str pdfText (ascii ''/js'')
                      then threats0 @ [''JavaScript detected''] else threats0);
          threats2 = (if includes_str pdfText (ascii ''/aa'') \<or> includes_str pdfText (ascii ''/openaction'')
                      then threats1 @ [''Auto-action detected''] else threats1);
          threats3 = (if includes_str pdfText (ascii ''/launch'')
                      then threats2 @ [''Launch action detected''] else threats2);
          threats4 = (if includes_str pdfText (ascii ''/submitform'')
                      then threats3 @ [''Form submission detected''] else threats3)
      in \<lparr>safe = (length threats4 = 0),
          threats = (if length threats4 > 0 then Some threats4 else None)\<rparr>)"

record metadata =
  documentId :: "string option"
  institutionId :: "string option"
  documentHash :: "string option"
  signature :: "string option"

text \<open>
  The body of the \<open>try\<close> block of \<open>extractMetadata\<close>: any rejection of the library is a
  throw, and so is reading \<open>info.Subject\<close> when \<open>info\<close> is \<open>undefined\<close>.
\<close>

definition extractMetadata_try :: "platform \<Rightarrow> byte list \<Rightarrow> fault + metadata" where
  "extractMetadata_try pf buffer =
     (case getMetadataInfo pf buffer of
        Inl e \<Rightarrow> Inl e
      | Inr None \<Rightarrow> Inl (Fault ''Cannot read properties of undefined'')
      | Inr (Some info) \<Rightarrow>
          Inr \<lparr>documentId = or_undefined (Subject info),
               institutionId = or_undefined (Creator info),
               documentHash = or_undefined (Keywords info),
               signature = or_undefined (Producer info)\<rparr>)"

text \<open>The \<open>catch\<close> logs the message and returns \<open>{}\<close>; the console is not modelled.\<close>

definition extractMetadata :: "platform \<Rightarrow> byte list \<Rightarrow> fault + metadata" where
  "extractMetadata pf buffer =
     (case extractMetadata_try pf buffer of
        Inl e \<Rightarrow>
          Inr \<lparr>documentId = None, institutionId = None, documentHash = None, signature = None\<rparr>
      | Inr m \<Rightarrow> Inr m)"

section \<open>The response of the route\<close>

record revocation =
  revokedAt :: "string option"
  revokedBy :: "string option"
  revocation_reason :: "string option"

text \<open>
  The \<open>details\<close> object has a different set of keys on each path; a key that the object
  literal does not have is \<open>None\<close>.
\<close>

record details =
  isAcadCertDocument :: "bool option"
  details_documentId :: "string option"
  httpStatus :: "nat option"
  isValid :: "bool option"
  details_revocation :: "revocation option"
  details_checks :: "checks option"
  details_errors :: "string list option"

definition empty_details :: details where
  "empty_details =
     \<lparr>isAcadCertDocument = None, details_documentId = None, httpStatus = None, isValid = None,
      details_revocation = None, details_checks = None, details_errors = None\<rparr>"

record verification =
  cryptographicIntegrity :: bool
  issuingAuthority :: bool
  revocationStatus :: bool

record receipt_checks =
  check_signature :: bool
  check_authority :: bool
  check_revocation :: bool

record receipt =
  receipt_id :: string
  receipt_documentId :: "string option"
  receipt_verifiedAt :: string
  receipt_result :: string
  receipt_checks :: receipt_checks
  receipt_institution :: string
  documentType :: string

record body =
  body_status :: "string option"
  body_valid :: "bool option"
  body_message :: "string option"
  body_reason :: "string option"
  body_threats :: "string list option"
  body_details :: "details option"
  body_documentId :: "string option"
  body_institutionId :: "string option"
  body_institution :: "jsobject option"
  body_document :: "jsobject option"
  body_verification :: "verification option"
  body_verifiedAt :: "string option"
  body_receipt :: "receipt option"

definition empty_body :: body where
  "empty_body =
     \<lparr>body_status = None, body_valid = None, body_message = None, body_reason = None,
      body_threats = None, body_details = None, body_documentId = None,
      body_institutionId = None, body_institution = None, body_document = None,
      body_verification = None, body_verifiedAt = None, body_receipt = None\<rparr>"

record reply =
  reply_code :: nat
  reply_body :: body

section \<open>routes/verify.ts\<close>

definition getStatusMessage :: "authority_result \<Rightarrow> string" where
  "getStatusMessage result =
     (if vr_status result = Some ''ACTIVE'' \<and> truthy_bool (vr_valid result) then
        ''Valid Document - Issued by institution and currently active''
      else if vr_status result = Some ''REVOKED'' then
        ''Document Revoked - Issuing institution has invalidated this document''
      else if vr_status result = Some ''SUPERSEDED'' then
        ''Document Superseded - This document has been replaced by a newer version''
      else if \<not> truthy_bool (vr_valid result) then
        (case vr_errors result of
           Some (e # es) \<Rightarrow> ''Invalid Document - '' @ e
         | _ \<Rightarrow> ''Invalid Document - Document has been tampered with or is not authentic'')
      else ''Document status could not be determined'')"

definition mapVerificationDetails :: "authority_result \<Rightarrow> details" where
  "mapVerificationDetails result =
     (let details0 = empty_details\<lparr>isValid := Some (or_false (vr_valid result))\<rparr>;
          details1 =
            (if vr_status result = Some ''REVOKED'' \<and> truthy_string (vr_revokedAt result) then
               details0\<lparr>details_revocation :=
                 Some \<lparr>revokedAt = vr_revokedAt result, revokedBy = vr_revokedBy result,
                       revocation_reason = vr_reason result\<rparr>\<rparr>
             else details0);
          details2 =
            (case vr_checks result of
               Some c \<Rightarrow> details1\<lparr>details_checks := Some c\<rparr>
             | None \<Rightarrow> details1);
          details3 =
            (case vr_errors result of
               Some (e # es) \<Rightarrow> details2\<lparr>details_errors := Some (e # es)\<rparr>
             | _ \<Rightarrow> details2)
      in details3)"

definition hex_digit :: "nat \<Rightarrow> char" where
  "hex_digit d = ''0123456789abcdef'' ! d"

definition toString_hex :: "byte list \<Rightarrow> string" where
  \<comment> \<open>\<open>buffer.toString('hex')\<close>: two lower-case digits for each byte\<close>
  "toString_hex bs = concat (map (\<lambda>b. [hex_digit (unat b div 16), hex_digit (unat b mod 16)]) bs)"

text \<open>
  The pipeline stages, in the order of the source. The route returns its reply together
  with the list of stages it has called, each appended at its call site. Every throw
  inside the \<open>try\<close> of the route ends in its \<open>catch\<close>, the reply \<open>internal_error\<close>.
  What the route writes to the console and to the logger is not modelled.
\<close>

datatype stage = StructuralValidator | ThreatScanner | MetadataExtractor | ExternalAuthority

definition internal_error :: reply where
  \<comment> \<open>the \<open>catch\<close> of the route\<close>
  "internal_error =
     \<lparr>reply_code = 500,
      reply_body = empty_body
        \<lparr>body_status := Some ''ERROR'',
         body_valid := Some False,
         body_message := Some ''An error occurred during verification. Please try again.'',
         body_reason := Some ''Internal processing error''\<rparr>\<rparr>"

definition not_a_credential :: reply where
  \<comment> \<open>the reply of the branch \<open>!metadata.documentId\<close>\<close>
  "not_a_credential =
     \<lparr>reply_code = 200,
      reply_body = empty_body
        \<lparr>body_status := Some ''UNKNOWN'',
         body_valid := Some False,
         body_message := Some ''This document does not appear to be an AcadCert credential'',
         body_reason := Some ''No document ID found in metadata'',
         body_details := Some (empty_details\<lparr>isAcadCertDocument := Some False\<rparr>)\<rparr>\<rparr>"

definition success_body :: "per_call \<Rightarrow> metadata \<Rightarrow> authority_result \<Rightarrow> body" where
  \<comment> \<open>Step 5: the object passed to \<open>reply.send\<close>\<close>
  "success_body pc metadata verificationResult =
     empty_body
       \<lparr>body_status := vr_status verificationResult,
        body_valid := vr_valid verificationResult,
        body_message := Some (getStatusMessage verificationResult),
        body_documentId := documentId metadata,
        body_institutionId := institutionId metadata,
        body_institution :=
          Some (case vr_institution verificationResult of None \<Rightarrow> Map.empty | Some i \<Rightarrow> i),
        body_document :=
          Some (case vr_document verificationResult of None \<Rightarrow> Map.empty | Some d \<Rightarrow> d),
        body_verification := Some
          \<lparr>cryptographicIntegrity =
             or_false (Option.bind (vr_checks verificationResult) signatureValid),
           issuingAuthority =
             or_false (Option.bind (vr_checks verificationResult) authorityValid),
           revocationStatus =
             or_false (Option.bind (vr_checks verificationResult) notRevoked)\<rparr>,
        body_details := Some (mapVerificationDetails verificationResult),
        body_verifiedAt := Some (date1 pc),
        body_receipt := Some
          \<lparr>receipt_id = ''rcpt_'' @ toString_hex (randomBytes12 pc),
           receipt_documentId = documentId metadata,
           receipt_verifiedAt = date2 pc,
           receipt_result =
             (if truthy_bool (vr_valid verificationResult) then ''VALID'' else ''INVALID''),
           receipt_checks =
             \<lparr>check_signature =
                or_false (Option.bind (vr_checks verificationResult) signatureValid),
              check_authority =
                or_false (Option.bind (vr_checks verificationResult) authorityValid),
              check_revocation =
                or_false (Option.bind (vr_checks verificationResult) notRevoked)\<rparr>,
           receipt_institution =
             or_string (Option.bind (vr_institution verificationResult) (\<lambda>i. i ''name''))
               ''Unknown'',
           documentType =
             or_string (Option.bind (vr_document verificationResult) (\<lambda>d. d ''type''))
               ''Unknown''\<rparr>\<rparr>"

definition verify :: "platform \<Rightarrow> per_call \<Rightarrow> fault + multipart_file option \<Rightarrow> reply \<times> stage list" where
  \<comment> \<open>\<open>POST /verify\<close>; the argument \<open>request_file\<close> is the outcome of \<open>request.file()\<close>\<close>
  "verify pf pc request_file =
     (case request_file of
        Inl e \<Rightarrow> (internal_error, [])
      | Inr None \<Rightarrow>
          (\<lparr>reply_code = 400,
            reply_body = empty_body
              \<lparr>body_status := Some ''ERROR'',
               body_message := Some ''No file uploaded. Please upload a PDF document.''\<rparr>\<rparr>,
           [])
      | Inr (Some data) \<Rightarrow>
         (case toBuffer data of
            Inl e \<Rightarrow> (internal_error, [])
          | Inr buffer \<Rightarrow>
             let tr1 = [] @ [StructuralValidator];
                 validation = validate pf buffer (filename data)
             in if \<not> valid validation then
                  (\<lparr>reply_code = 400,
                    reply_body = empty_body
                      \<lparr>body_status := Some ''INVALID'',
                       body_message := error validation,
                       body_reason := Some ''File validation failed''\<rparr>\<rparr>,
                   tr1)
                else
                  let tr2 = tr1 @ [ThreatScanner];
                      securityCheck = securityScan pf buffer
                  in if \<not> safe securityCheck then
                       (\<lparr>reply_code = 400,
                         reply_body = empty_body
                           \<lparr>body_status := Some ''INVALID'',
                            body_message :=
                              Some ''Document contains potentially malicious content'',
                            body_threats := threats securityCheck,
                            body_reason := Some ''Security check failed''\<rparr>\<rparr>,
                        tr2)
                     else
                       let tr3 = tr2 @ [MetadataExtractor]
                       in (case extractMetadata pf buffer of
                            Inl e \<Rightarrow> (internal_error, tr3)
                          | Inr metadata \<Rightarrow>
                             (case documentId metadata of
                                None \<Rightarrow> (not_a_credential, tr3)
                              | Some docId \<Rightarrow>
                                 if docId = [] then (not_a_credential, tr3)
                                 else
                                   let acadCertUrl =
                                         or_string (ACADCERT_API_URL pf) ''http://localhost:3000'';
                                       verifyUrl =
                                         acadCertUrl @ ''/api/documents/'' @ docId
                                           @ ''/verify-public'';
                                       tr4 = tr3 @ [ExternalAuthority]
                                   in (case fetch pf verifyUrl of
                                        Inl e \<Rightarrow> (internal_error, tr4)
                                      | Inr verifyResponse \<Rightarrow>
                                         if \<not> ok verifyResponse then
                                           (if resp_status verifyResponse = 404 then
                                              (\<lparr>reply_code = 200,
                                                reply_body = empty_body
                                                  \<lparr>body_status := Some ''UNKNOWN'',
                                                   body_valid := Some False,
                                                   body_message :=
                                                     Some ''Document not found in AcadCert system'',
                                                   body_reason := Some ''Document ID not recognized'',
                                                   body_details := Some (empty_details
                                                     \<lparr>details_documentId := Some docId\<rparr>)\<rparr>\<rparr>,
                                               tr4)
                                            else
                                              (\<lparr>reply_code = 200,
                                                reply_body = empty_body
                                                  \<lparr>body_status := Some ''UNKNOWN'',
                                                   body_valid := Some False,
                                                   body_message := Some
                                                     ''Unable to verify document with issuing institution'',
                                                   body_reason :=
                                                     Some ''Verification service unavailable'',
                                                   body_details := Some (empty_details
                                                     \<lparr>details_documentId := Some docId,
                                                      httpStatus :=
                                                        Some (resp_status verifyResponse)\<rparr>)\<rparr>\<rparr>,
                                               tr4))
                                         else
                                           (case resp_json verifyResponse of
                                              Inl e \<Rightarrow> (internal_error, tr4)
                                            | Inr None \<Rightarrow> (internal_error, tr4)
                                            | Inr (Some verificationResult) \<Rightarrow>
                                               (\<lparr>reply_code = 200,
                                                 reply_body =
                                                   success_body pc metadata verificationResult\<rparr>,
                                                tr4)))))))"

section \<open>Vocabulary of the statements\<close>

text \<open>
  The text the scanner searches, and the four conditions of its \<open>if\<close> statements, named
  so that the theorems can speak about them.
\<close>

definition pdfText :: "platform \<Rightarrow> byte list \<Rightarrow> jsstring" where
  "pdfText pf buffer = toLowerCase pf (toString_utf8 pf buffer)"

definition hasJavaScript :: "jsstring \<Rightarrow> bool" where
  "hasJavaScript t = (includes_str t (ascii ''/javascript'') \<or> includes_str t (ascii ''/js''))"

definition hasAutoAction :: "jsstring \<Rightarrow> bool" where
  "hasAutoAction t = (includes_str t (ascii ''/aa'') \<or> includes_str t (ascii ''/openaction''))"

definition hasLaunch :: "jsstring \<Rightarrow> bool" where
  "hasLaunch t = includes_str t (ascii ''/launch'')"

definition hasSubmitForm :: "jsstring \<Rightarrow> bool" where
  "hasSubmitForm t = includes_str t (ascii ''/submitform'')"

definition threats_list :: "scan_result \<Rightarrow> string list" where
  \<comment> \<open>the matches a result carries: none when the field is absent\<close>
  "threats_list r = (case threats r of None \<Rightarrow> [] | Some ts \<Rightarrow> ts)"

definition all_absent :: metadata where
  "all_absent = \<lparr>documentId = None, institutionId = None, documentHash = None, signature = None\<rparr>"

definition verify_url :: "platform \<Rightarrow> string \<Rightarrow> string" where
  \<comment> \<open>the URL the route builds for a document identifier\<close>
  "verify_url pf docId =
     or_string (ACADCERT_API_URL pf) ''http://localhost:3000''
       @ ''/api/documents/'' @ docId @ ''/verify-public''"

text \<open>
  A reply with the two time stamps and the receipt identifier blanked: what is left are
  the fields that the inputs of the request determine.
\<close>

definition without_per_call_fields :: "reply \<Rightarrow> reply" where
  "without_per_call_fields r =
     r\<lparr>reply_body := (reply_body r)
        \<lparr>body_verifiedAt := None,
         body_receipt :=
           map_option (\<lambda>rc. rc\<lparr>receipt_id := [], receipt_verifiedAt := []\<rparr>)
             (body_receipt (reply_body r))\<rparr>\<rparr>"

text \<open>
  The message precedence in the words of the specification, to be compared with
  \<open>getStatusMessage\<close>: active and valid, then revoked, then superseded, then
  \<open>valid\<close> false with a non-empty \<open>errors\<close> list, and the generic message for
  everything else.
\<close>

definition claimed_status_message :: "authority_result \<Rightarrow> string" where
  "claimed_status_message result =
     (if vr_status result = Some ''ACTIVE'' \<and> vr_valid result = Some True then
        ''Valid Document - Issued by institution and currently active''
      else if vr_status result = Some ''REVOKED'' then
        ''Document Revoked - Issuing institution has invalidated this document''
      else if vr_status result = Some ''SUPERSEDED'' then
        ''Document Superseded - This document has been replaced by a newer version''
      else (case (vr_valid result, vr_errors result) of
              (Some False, Some (e # es)) \<Rightarrow> ''Invalid Document - '' @ e
            | _ \<Rightarrow> ''Document status could not be determined''))"

section \<open>Concrete inputs\<close>

text \<open>
  A platform for the examples. On input that is ASCII only, \<open>Buffer.toString('utf-8')\<close>
  gives one code unit for each byte and \<open>toLowerCase\<close> changes the letters A to Z alone;
  the examples use such input only. The library's answer and the authority's answer are
  the two arguments; the authority answers at the URL of the document \<open>doc-1\<close>.
\<close>

definition ascii_toLowerCase :: "jsstring \<Rightarrow> jsstring" where
  "ascii_toLowerCase s = map (\<lambda>c. if 65 \<le> c \<and> c \<le> 90 then c + 32 else c) s"

definition ascii_platform :: "(fault + pdf_info option) \<Rightarrow> (fault + http_response) \<Rightarrow> platform" where
  "ascii_platform info resp =
     \<lparr>toString_utf8 = map unat,
      toLowerCase = ascii_toLowerCase,
      getMetadataInfo = (\<lambda>b. info),
      ACADCERT_API_URL = None,
      fetch = (\<lambda>url. if url = ''http://localhost:3000/api/documents/doc-1/verify-public''
                      then resp else Inl (Fault ''fetch failed''))\<rparr>"

definition offline :: platform where
  \<comment> \<open>no information dictionary, no authority: enough for the validator and the scanner\<close>
  "offline = ascii_platform (Inr None) (Inl (Fault ''fetch failed''))"

definition with_subject :: "string option \<Rightarrow> pdf_info" where
  \<comment> \<open>an information dictionary with the given \<open>Subject\<close> and a \<open>Creator\<close>\<close>
  "with_subject s = \<lparr>Subject = s, Creator = Some ''inst-9'', Keywords = None, Producer = None\<rparr>"

definition credential :: "fault + pdf_info option" where
  \<comment> \<open>the library's answer for a document whose \<open>Subject\<close> is \<open>doc-1\<close>\<close>
  "credential = Inr (Some (with_subject (Some ''doc-1'')))"

definition upload :: "string \<Rightarrow> string \<Rightarrow> multipart_file" where
  "upload content name = \<lparr>toBuffer = Inr (Buffer_from content), filename = ascii name\<rparr>"

definition diploma :: "fault + multipart_file option" where
  \<comment> \<open>a request with a small, harmless PDF\<close>
  "diploma = Inr (Some (upload ''%PDF-1.4 diploma'' ''Diploma.PDF''))"

definition call_a :: per_call where
  "call_a = \<lparr>date1 = ''2024-01-01T00:00:00.000Z'', date2 = ''2024-01-01T00:00:00.001Z'',
             randomBytes12 = [0, 1, 2, 3, 4, 5, 6, 7, 8, 9, 10, 255]\<rparr>"

definition call_b :: per_call where
  "call_b = \<lparr>date1 = ''2024-06-30T12:00:00.000Z'', date2 = ''2024-06-30T12:00:00.002Z'',
             randomBytes12 = [171, 1, 2, 3, 4, 5, 6, 7, 8, 9, 10, 11]\<rparr>"

definition active_result :: authority_result where
  \<comment> \<open>the authority's answer for an active, valid document\<close>
  "active_result =
     \<lparr>vr_status = Some ''ACTIVE'', vr_valid = Some True,
      vr_checks = Some \<lparr>signatureValid = Some True, authorityValid = Some True, notRevoked = Some True\<rparr>,
      vr_institution = Some [''name'' \<mapsto> ''Example University''],
      vr_document = Some [''type'' \<mapsto> ''Diploma''],
      vr_errors = None, vr_revokedAt = None, vr_revokedBy = None, vr_reason = None\<rparr>"

definition active_but_invalid :: authority_result where
  \<comment> \<open>an answer with status \<open>ACTIVE\<close>, \<open>valid\<close> false and no \<open>errors\<close> list\<close>
  "active_but_invalid =
     \<lparr>vr_status = Some ''ACTIVE'', vr_valid = Some False,
      vr_checks = Some \<lparr>signatureValid = Some False, authorityValid = Some True, notRevoked = Some True\<rparr>,
      vr_institution = None, vr_document = None, vr_errors = None,
      vr_revokedAt = None, vr_revokedBy = None, vr_reason = None\<rparr>"

definition answer :: "nat \<Rightarrow> authority_result \<Rightarrow> fault + http_response" where
  \<comment> \<open>a response with the given status and JSON body\<close>
  "answer st r = Inr \<lparr>resp_status = st, resp_json = Inr (Some r)\<rparr>"

definition not_multipart :: "fault + multipart_file option" where
  \<comment> \<open>the outcome of \<open>request.file()\<close> for a request that is not multipart: a throw\<close>
  "not_multipart = Inl (Fault ''the request is not multipart'')"

section \<open>The concrete inputs evaluated\<close>

lemma ascii_platform_sel [simp]:
  "toLowerCase (ascii_platform i r) = ascii_toLowerCase"
  "toString_utf8 (ascii_platform i r) = map unat"
  "getMetadataInfo (ascii_platform i r) b = i"
  "ACADCERT_API_URL (ascii_platform i r) = None"
  "fetch (ascii_platform i r) ''http://localhost:3000/api/documents/doc-1/verify-public'' = r"
  by (simp_all add: ascii_platform_def)

lemma validate_example:
  "validate (ascii_platform i r) (Buffer_from ''%PDF-1.4 diploma'') (ascii ''Diploma.PDF'')
     = \<lparr>valid = True, error = None\<rparr>"
  by (simp add: validate_def MAX_FILE_SIZE_def PDF_MAGIC_NUMBER_def Buffer_from_def ascii_def
      ascii_toLowerCase_def endsWith_def suffix_to_prefix)

lemma securityScan_example:
  "securityScan (ascii_platform i r) (Buffer_from ''%PDF-1.4 diploma'')
     = \<lparr>safe = True, threats = None\<rparr>"
  by (simp add: securityScan_def Buffer_from_def ascii_def ascii_toLowerCase_def
      includes_str_def sublist_Cons_right)

lemma validate_gif:
  "\<not> valid (validate (ascii_platform i r) (Buffer_from ''GIF89a'') (ascii ''doc.pdf''))"
  by (simp add: validate_def MAX_FILE_SIZE_def PDF_MAGIC_NUMBER_def Buffer_from_def)

lemma validate_js:
  "valid (validate (ascii_platform i r) (Buffer_from ''%PDF-1.4 /JS'') (ascii ''doc.pdf''))"
  by (simp add: validate_def MAX_FILE_SIZE_def PDF_MAGIC_NUMBER_def Buffer_from_def ascii_def
      ascii_toLowerCase_def endsWith_def suffix_to_prefix)

lemma securityScan_js:
  "\<not> safe (securityScan (ascii_platform i r) (Buffer_from ''%PDF-1.4 /JS''))"
  by (simp add: securityScan_def Buffer_from_def ascii_def ascii_toLowerCase_def
      includes_str_def sublist_Cons_right)

lemma extractMetadata_example:
  "extractMetadata (ascii_platform (Inr (Some (with_subject s))) r) b
     = Inr \<lparr>documentId = or_undefined s, institutionId = Some ''inst-9'', documentHash = None, signature = None\<rparr>"
  by (simp add: extractMetadata_def extractMetadata_try_def with_subject_def or_undefined_def truthy_string_def)

lemma verify_url_example: "verify_url (ascii_platform i r) ''doc-1'' = ''http://localhost:3000/api/documents/doc-1/verify-public''"
  by (simp add: verify_url_def or_string_def)

section \<open>Structural Validator\<close>

lemma string_of_nat_50: "string_of_nat 50 = ''50''"
  by (simp add: string_of_nat.simps digit_char_def)

lemma MAX_FILE_SIZE_value: "MAX_FILE_SIZE = 52428800"
  by (simp add: MAX_FILE_SIZE_def)

lemma length_magic: "length PDF_MAGIC_NUMBER = 5"
  by (simp add: PDF_MAGIC_NUMBER_def Buffer_from_def)

lemma magic_check: "(take 5 buffer = PDF_MAGIC_NUMBER) = prefix PDF_MAGIC_NUMBER buffer"
proof
  assume "take 5 buffer = PDF_MAGIC_NUMBER"
  then have "buffer = PDF_MAGIC_NUMBER @ drop 5 buffer"
    by (metis append_take_drop_id)
  then show "prefix PDF_MAGIC_NUMBER buffer"
    by (metis prefixI)
next
  assume "prefix PDF_MAGIC_NUMBER buffer"
  then obtain zs where "buffer = PDF_MAGIC_NUMBER @ zs"
    by (auto simp: prefix_def)
  then show "take 5 buffer = PDF_MAGIC_NUMBER"
    by (simp add: length_magic)
qed

lemma short_no_magic: "length buffer < 5 \<Longrightarrow> \<not> prefix PDF_MAGIC_NUMBER buffer"
  using prefix_length_le [of PDF_MAGIC_NUMBER buffer] by (auto simp: length_magic)

lemma offline_toLowerCase [simp]: "toLowerCase offline = ascii_toLowerCase"
  by (simp add: offline_def ascii_platform_def)

lemma offline_toString [simp]: "toString_utf8 offline = map unat"
  by (simp add: offline_def ascii_platform_def)

text \<open>
  Claim C4. The checks of \<open>validate\<close> run in the order size, emptiness, magic number,
  extension, and the first one that fails decides the result alone: an oversized buffer
  gets the size message whatever its content and name; an empty one the emptiness
  message; a non-empty buffer within the limit that is shorter than five bytes or does
  not start with \<open>%PDF-\<close> gets the format message whatever its name; the extension is
  looked at only after the magic number has matched.
\<close>

theorem validate_check_order:
  "(length buffer > 52428800 \<longrightarrow>
      validate pf buffer fname =
        \<lparr>valid = False, error = Some ''File too large. Maximum size is 50MB''\<rparr>)
   \<and> (buffer = [] \<longrightarrow>
      validate pf buffer fname = \<lparr>valid = False, error = Some ''File is empty''\<rparr>)
   \<and> (length buffer \<le> 52428800 \<and> buffer \<noteq> []
        \<and> (length buffer < 5 \<or> \<not> prefix (Buffer_from ''%PDF-'') buffer) \<longrightarrow>
      validate pf buffer fname =
        \<lparr>valid = False, error = Some ''Invalid file format. Only PDF files are accepted.''\<rparr>)
   \<and> (length buffer \<le> 52428800 \<and> prefix (Buffer_from ''%PDF-'') buffer
        \<and> \<not> endsWith (toLowerCase pf fname) (ascii ''.pdf'') \<longrightarrow>
      validate pf buffer fname =
        \<lparr>valid = False, error = Some ''File must have .pdf extension''\<rparr>)
   \<and> (length buffer \<le> 52428800 \<and> prefix (Buffer_from ''%PDF-'') buffer
        \<and> endsWith (toLowerCase pf fname) (ascii ''.pdf'') \<longrightarrow>
      validate pf buffer fname = \<lparr>valid = True, error = None\<rparr>)"
proof -
  have nonempty: "prefix PDF_MAGIC_NUMBER buffer \<Longrightarrow> buffer \<noteq> []"
    using length_magic by (auto simp: prefix_def)
  show ?thesis
    unfolding PDF_MAGIC_NUMBER_def [symmetric]
    using nonempty short_no_magic [of buffer]
    by (auto simp: validate_def string_of_nat_50 MAX_FILE_SIZE_value magic_check)
qed

theorem validate_check_order_witness:
  "validate offline (replicate 52428801 0) (ascii ''a.pdf'')
     = \<lparr>valid = False, error = Some ''File too large. Maximum size is 50MB''\<rparr>
   \<and> validate offline [] (ascii ''a.pdf'')
     = \<lparr>valid = False, error = Some ''File is empty''\<rparr>
   \<and> validate offline (Buffer_from ''%PD'') (ascii ''a.pdf'')
     = \<lparr>valid = False, error = Some ''Invalid file format. Only PDF files are accepted.''\<rparr>
   \<and> validate offline (Buffer_from ''GIF89a'') (ascii ''a.pdf'')
     = \<lparr>valid = False, error = Some ''Invalid file format. Only PDF files are accepted.''\<rparr>
   \<and> validate offline (Buffer_from ''%PDF-1.4'') (ascii ''a.txt'')
     = \<lparr>valid = False, error = Some ''File must have .pdf extension''\<rparr>
   \<and> validate offline (Buffer_from ''%PDF-1.4'') (ascii ''A.PDF'')
     = \<lparr>valid = True, error = None\<rparr>"
  using validate_check_order [of "replicate 52428801 0" offline "ascii ''a.pdf''"]
        validate_check_order [of "[]" offline "ascii ''a.pdf''"]
        validate_check_order [of "Buffer_from ''%PD''" offline "ascii ''a.pdf''"]
        validate_check_order [of "Buffer_from ''GIF89a''" offline "ascii ''a.pdf''"]
        validate_check_order [of "Buffer_from ''%PDF-1.4''" offline "ascii ''a.txt''"]
        validate_check_order [of "Buffer_from ''%PDF-1.4''" offline "ascii ''A.PDF''"]
  by (simp add: Buffer_from_def ascii_def ascii_toLowerCase_def endsWith_def suffix_to_prefix)

text \<open>
  Claim C5. A buffer of exactly 52428800 bytes passes the size check: the result is
  decided by the magic number and the extension, and is never the size message. A buffer
  of 52428801 bytes is rejected with the size message.
\<close>

theorem validate_size_boundary:
  "(length buffer = 52428800 \<longrightarrow>
      error (validate pf buffer fname) \<noteq> Some ''File too large. Maximum size is 50MB''
      \<and> valid (validate pf buffer fname)
          = (prefix (Buffer_from ''%PDF-'') buffer \<and> endsWith (toLowerCase pf fname) (ascii ''.pdf'')))
   \<and> (length buffer = 52428801 \<longrightarrow>
      validate pf buffer fname =
        \<lparr>valid = False, error = Some ''File too large. Maximum size is 50MB''\<rparr>)"
  unfolding PDF_MAGIC_NUMBER_def [symmetric]
  by (auto simp: validate_def string_of_nat_50 MAX_FILE_SIZE_value magic_check)

theorem validate_size_boundary_witness:
  "valid (validate offline
            (Buffer_from ''%PDF-'' @ replicate 52428795 0) (ascii ''a.pdf''))
   \<and> validate offline
            (Buffer_from ''%PDF-'' @ replicate 52428796 0) (ascii ''a.pdf'')
       = \<lparr>valid = False, error = Some ''File too large. Maximum size is 50MB''\<rparr>"
  using validate_size_boundary [of "Buffer_from ''%PDF-'' @ replicate 52428795 0" offline "ascii ''a.pdf''"]
        validate_size_boundary [of "Buffer_from ''%PDF-'' @ replicate 52428796 0" offline "ascii ''a.pdf''"]
  by (simp add: Buffer_from_def ascii_def ascii_toLowerCase_def endsWith_def suffix_to_prefix)

section \<open>Threat Scanner\<close>

lemma securityScan_threats:
  "securityScan pf buffer =
     (let ts = (if hasJavaScript (pdfText pf buffer) then [''JavaScript detected''] else [])
             @ (if hasAutoAction (pdfText pf buffer) then [''Auto-action detected''] else [])
             @ (if hasLaunch (pdfText pf buffer) then [''Launch action detected''] else [])
             @ (if hasSubmitForm (pdfText pf buffer) then [''Form submission detected''] else [])
      in \<lparr>safe = (ts = []), threats = (if ts = [] then None else Some ts)\<rparr>)"
  by (simp add: securityScan_def Let_def hasJavaScript_def hasAutoAction_def hasLaunch_def
      hasSubmitForm_def pdfText_def)

text \<open>
  Claim C3. The scanner evaluates all four conditions on the same text and collects every
  one that holds, in the order of the source; \<open>safe\<close> is true exactly when none holds.
  When one condition holds and the other three do not, the result is \<open>safe = false\<close>
  with that one threat; when none holds, it is \<open>safe = true\<close> with no \<open>threats\<close> field.
\<close>

theorem securityScan_collects_every_match:
  "threats_list (securityScan pf buffer) =
       (if hasJavaScript (pdfText pf buffer) then [''JavaScript detected''] else [])
     @ (if hasAutoAction (pdfText pf buffer) then [''Auto-action detected''] else [])
     @ (if hasLaunch (pdfText pf buffer) then [''Launch action detected''] else [])
     @ (if hasSubmitForm (pdfText pf buffer) then [''Form submission detected''] else [])
   \<and> safe (securityScan pf buffer) =
       (\<not> hasJavaScript (pdfText pf buffer) \<and> \<not> hasAutoAction (pdfText pf buffer)
        \<and> \<not> hasLaunch (pdfText pf buffer) \<and> \<not> hasSubmitForm (pdfText pf buffer))
   \<and> (hasJavaScript (pdfText pf buffer) \<and> \<not> hasAutoAction (pdfText pf buffer)
        \<and> \<not> hasLaunch (pdfText pf buffer) \<and> \<not> hasSubmitForm (pdfText pf buffer) \<longrightarrow>
       securityScan pf buffer = \<lparr>safe = False, threats = Some [''JavaScript detected'']\<rparr>)
   \<and> (\<not> hasJavaScript (pdfText pf buffer) \<and> hasAutoAction (pdfText pf buffer)
        \<and> \<not> hasLaunch (pdfText pf buffer) \<and> \<not> hasSubmitForm (pdfText pf buffer) \<longrightarrow>
       securityScan pf buffer = \<lparr>safe = False, threats = Some [''Auto-action detected'']\<rparr>)
   \<and> (\<not> hasJavaScript (pdfText pf buffer) \<and> \<not> hasAutoAction (pdfText pf buffer)
        \<and> hasLaunch (pdfText pf buffer) \<and> \<not> hasSubmitForm (pdfText pf buffer) \<longrightarrow>
       securityScan pf buffer = \<lparr>safe = False, threats = Some [''Launch action detected'']\<rparr>)
   \<and> (\<not> hasJavaScript (pdfText pf buffer) \<and> \<not> hasAutoAction (pdfText pf buffer)
        \<and> \<not> hasLaunch (pdfText pf buffer) \<and> hasSubmitForm (pdfText pf buffer) \<longrightarrow>
       securityScan pf buffer = \<lparr>safe = False, threats = Some [''Form submission detected'']\<rparr>)
   \<and> (\<not> hasJavaScript (pdfText pf buffer) \<and> \<not> hasAutoAction (pdfText pf buffer)
        \<and> \<not> hasLaunch (pdfText pf buffer) \<and> \<not> hasSubmitForm (pdfText pf buffer) \<longrightarrow>
       securityScan pf buffer = \<lparr>safe = True, threats = None\<rparr>)"
  by (simp add: securityScan_threats threats_list_def)

theorem securityScan_collects_every_match_witness:
  "securityScan offline (Buffer_from ''/JavaScript'')
     = \<lparr>safe = False, threats = Some [''JavaScript detected'']\<rparr>
   \<and> securityScan offline (Buffer_from ''/JS'')
     = \<lparr>safe = False, threats = Some [''JavaScript detected'']\<rparr>
   \<and> securityScan offline (Buffer_from ''/AA'')
     = \<lparr>safe = False, threats = Some [''Auto-action detected'']\<rparr>
   \<and> securityScan offline (Buffer_from ''/OpenAction'')
     = \<lparr>safe = False, threats = Some [''Auto-action detected'']\<rparr>
   \<and> securityScan offline (Buffer_from ''/Launch'')
     = \<lparr>safe = False, threats = Some [''Launch action detected'']\<rparr>
   \<and> securityScan offline (Buffer_from ''/SubmitForm'')
     = \<lparr>safe = False, threats = Some [''Form submission detected'']\<rparr>
   \<and> securityScan offline (Buffer_from ''%PDF-1.4 /Type /Catalog'')
     = \<lparr>safe = True, threats = None\<rparr>"
  using securityScan_collects_every_match [of offline "Buffer_from ''/JavaScript''"]
        securityScan_collects_every_match [of offline "Buffer_from ''/JS''"]
        securityScan_collects_every_match [of offline "Buffer_from ''/AA''"]
        securityScan_collects_every_match [of offline "Buffer_from ''/OpenAction''"]
        securityScan_collects_every_match [of offline "Buffer_from ''/Launch''"]
        securityScan_collects_every_match [of offline "Buffer_from ''/SubmitForm''"]
        securityScan_collects_every_match [of offline "Buffer_from ''%PDF-1.4 /Type /Catalog''"]
  by (simp add: Buffer_from_def ascii_def ascii_toLowerCase_def pdfText_def hasJavaScript_def
      hasAutoAction_def hasLaunch_def hasSubmitForm_def includes_str_def sublist_Cons_right)

text \<open>
  Claim C10. The \<open>threats\<close> field is absent exactly when \<open>safe\<close> is true and is never
  the empty list; when \<open>safe\<close> is false the list is non-empty, has no duplicates and
  follows the order JavaScript, Auto-action, Launch, Form submission.
\<close>

theorem securityScan_threats_field:
  "(threats (securityScan pf buffer) = None) = safe (securityScan pf buffer)
   \<and> threats (securityScan pf buffer) \<noteq> Some []
   \<and> (\<not> safe (securityScan pf buffer) \<longrightarrow>
        (\<exists>ts. threats (securityScan pf buffer) = Some ts \<and> ts \<noteq> [] \<and> distinct ts
           \<and> subseq ts [''JavaScript detected'', ''Auto-action detected'',
                         ''Launch action detected'', ''Form submission detected'']))"
  by (simp add: securityScan_threats)

theorem securityScan_threats_field_witness:
  "\<not> safe (securityScan offline
              (Buffer_from ''/SubmitForm /Launch /JS''))
   \<and> threats (securityScan offline
              (Buffer_from ''/SubmitForm /Launch /JS''))
       = Some [''JavaScript detected'', ''Launch action detected'', ''Form submission detected'']"
  using securityScan_threats_field [of offline "Buffer_from ''/SubmitForm /Launch /JS''"]
  by (simp add: securityScan_def Buffer_from_def ascii_def ascii_toLowerCase_def
      includes_str_def sublist_Cons_right)

section \<open>Metadata Extractor\<close>

lemma extractMetadata_returns: "\<exists>m. extractMetadata pf buffer = Inr m"
  by (simp add: extractMetadata_def split: sum.split)

text \<open>
  Claim C6. \<open>extractMetadata\<close> returns for every buffer and every behaviour of the
  library, and never throws. When the \<open>try\<close> block fails, in particular when the
  library gives no information dictionary, and also when the dictionary has none of the
  four fields, the result has all four identifiers absent.
\<close>

theorem extractMetadata_never_raises:
  "(\<exists>m. extractMetadata pf buffer = Inr m)
   \<and> ((\<exists>e. extractMetadata_try pf buffer = Inl e) \<longrightarrow> extractMetadata pf buffer = Inr all_absent)
   \<and> (getMetadataInfo pf buffer = Inr None \<longrightarrow> extractMetadata pf buffer = Inr all_absent)
   \<and> (getMetadataInfo pf buffer
         = Inr (Some \<lparr>Subject = None, Creator = None, Keywords = None, Producer = None\<rparr>) \<longrightarrow>
       extractMetadata pf buffer = Inr all_absent)"
  by (auto simp: extractMetadata_def extractMetadata_try_def all_absent_def or_undefined_def
      truthy_string_def split: sum.splits option.splits)

theorem extractMetadata_never_raises_witness:
  "extractMetadata (ascii_platform (Inl (Fault ''Invalid PDF structure.'')) (Inl (Fault ''fetch failed'')))
       (Buffer_from ''%PDF-1.4 diploma'') = Inr all_absent
   \<and> extractMetadata (ascii_platform (Inr None) (Inl (Fault ''fetch failed'')))
       (Buffer_from ''%PDF-1.4 diploma'') = Inr all_absent
   \<and> extractMetadata (ascii_platform (Inr (Some \<lparr>Subject = None, Creator = None, Keywords = None, Producer = None\<rparr>))
         (Inl (Fault ''fetch failed''))) (Buffer_from ''%PDF-1.4 diploma'') = Inr all_absent"
  using extractMetadata_never_raises [of "ascii_platform (Inl (Fault ''Invalid PDF structure.'')) (Inl (Fault ''fetch failed''))" "Buffer_from ''%PDF-1.4 diploma''"]
        extractMetadata_never_raises [of "ascii_platform (Inr None) (Inl (Fault ''fetch failed''))" "Buffer_from ''%PDF-1.4 diploma''"]
        extractMetadata_never_raises [of "ascii_platform (Inr (Some \<lparr>Subject = None, Creator = None, Keywords = None, Producer = None\<rparr>)) (Inl (Fault ''fetch failed''))" "Buffer_from ''%PDF-1.4 diploma''"]
  by (simp add: extractMetadata_try_def)

section \<open>The paths of the route\<close>

lemma verify_validation_failed:
  "toBuffer data = Inr buffer \<Longrightarrow> \<not> valid (validate pf buffer (filename data)) \<Longrightarrow>
   verify pf pc (Inr (Some data)) =
     (\<lparr>reply_code = 400,
       reply_body = empty_body
         \<lparr>body_status := Some ''INVALID'',
          body_message := error (validate pf buffer (filename data)),
          body_reason := Some ''File validation failed''\<rparr>\<rparr>,
      [StructuralValidator])"
  by (simp add: verify_def)

lemma verify_security_failed:
  "toBuffer data = Inr buffer \<Longrightarrow> valid (validate pf buffer (filename data)) \<Longrightarrow>
   \<not> safe (securityScan pf buffer) \<Longrightarrow>
   verify pf pc (Inr (Some data)) =
     (\<lparr>reply_code = 400,
       reply_body = empty_body
         \<lparr>body_status := Some ''INVALID'',
          body_message := Some ''Document contains potentially malicious content'',
          body_threats := threats (securityScan pf buffer),
          body_reason := Some ''Security check failed''\<rparr>\<rparr>,
      [StructuralValidator, ThreatScanner])"
  by (simp add: verify_def)

lemma verify_not_a_credential:
  "toBuffer data = Inr buffer \<Longrightarrow> valid (validate pf buffer (filename data)) \<Longrightarrow>
   safe (securityScan pf buffer) \<Longrightarrow> extractMetadata pf buffer = Inr metadata \<Longrightarrow>
   \<not> truthy_string (documentId metadata) \<Longrightarrow>
   verify pf pc (Inr (Some data)) =
     (not_a_credential, [StructuralValidator, ThreatScanner, MetadataExtractor])"
  by (simp add: verify_def truthy_string_def split: option.splits)

lemma verify_fetch_rejected:
  "toBuffer data = Inr buffer \<Longrightarrow> valid (validate pf buffer (filename data)) \<Longrightarrow>
   safe (securityScan pf buffer) \<Longrightarrow> extractMetadata pf buffer = Inr metadata \<Longrightarrow>
   documentId metadata = Some docId \<Longrightarrow> docId \<noteq> [] \<Longrightarrow>
   fetch pf (verify_url pf docId) = Inl e \<Longrightarrow>
   verify pf pc (Inr (Some data)) =
     (internal_error, [StructuralValidator, ThreatScanner, MetadataExtractor, ExternalAuthority])"
  by (simp add: verify_def verify_url_def)

lemma verify_not_ok:
  "toBuffer data = Inr buffer \<Longrightarrow> valid (validate pf buffer (filename data)) \<Longrightarrow>
   safe (securityScan pf buffer) \<Longrightarrow> extractMetadata pf buffer = Inr metadata \<Longrightarrow>
   documentId metadata = Some docId \<Longrightarrow> docId \<noteq> [] \<Longrightarrow>
   fetch pf (verify_url pf docId) = Inr verifyResponse \<Longrightarrow> \<not> ok verifyResponse \<Longrightarrow>
   verify pf pc (Inr (Some data)) =
     (if resp_status verifyResponse = 404 then
        \<lparr>reply_code = 200,
         reply_body = empty_body
           \<lparr>body_status := Some ''UNKNOWN'',
            body_valid := Some False,
            body_message := Some ''Document not found in AcadCert system'',
            body_reason := Some ''Document ID not recognized'',
            body_details := Some (empty_details\<lparr>details_documentId := Some docId\<rparr>)\<rparr>\<rparr>
      else
        \<lparr>reply_code = 200,
         reply_body = empty_body
           \<lparr>body_status := Some ''UNKNOWN'',
            body_valid := Some False,
            body_message := Some ''Unable to verify document with issuing institution'',
            body_reason := Some ''Verification service unavailable'',
            body_details := Some (empty_details
              \<lparr>details_documentId := Some docId,
               httpStatus := Some (resp_status verifyResponse)\<rparr>)\<rparr>\<rparr>,
      [StructuralValidator, ThreatScanner, MetadataExtractor, ExternalAuthority])"
  by (simp add: verify_def verify_url_def)

lemma verify_verified:
  "toBuffer data = Inr buffer \<Longrightarrow> valid (validate pf buffer (filename data)) \<Longrightarrow>
   safe (securityScan pf buffer) \<Longrightarrow> extractMetadata pf buffer = Inr metadata \<Longrightarrow>
   documentId metadata = Some docId \<Longrightarrow> docId \<noteq> [] \<Longrightarrow>
   fetch pf (verify_url pf docId) = Inr verifyResponse \<Longrightarrow> ok verifyResponse \<Longrightarrow>
   resp_json verifyResponse = Inr (Some verificationResult) \<Longrightarrow>
   verify pf pc (Inr (Some data)) =
     (\<lparr>reply_code = 200, reply_body = success_body pc metadata verificationResult\<rparr>,
      [StructuralValidator, ThreatScanner, MetadataExtractor, ExternalAuthority])"
  by (simp add: verify_def verify_url_def)

text \<open>
  Claim C9, as amended. When \<open>request.file()\<close> resolves to no file (a multipart request
  without a file part), the route answers 400 with status \<open>ERROR\<close> and the message
  \<open>No file uploaded. Please upload a PDF document.\<close>; when \<open>request.file()\<close> itself
  throws (as it does for a request that is not multipart), the route answers 500 with
  status \<open>ERROR\<close> and the generic message of its \<open>catch\<close>. In both cases no stage has
  been called.
\<close>

theorem no_file_is_rejected_first:
  "verify pf pc (Inr None) =
     (\<lparr>reply_code = 400,
       reply_body = empty_body
         \<lparr>body_status := Some ''ERROR'',
          body_message := Some ''No file uploaded. Please upload a PDF document.''\<rparr>\<rparr>,
      [])
   \<and> verify pf pc (Inl e) =
     (\<lparr>reply_code = 500,
       reply_body = empty_body
         \<lparr>body_status := Some ''ERROR'',
          body_valid := Some False,
          body_message := Some ''An error occurred during verification. Please try again.'',
          body_reason := Some ''Internal processing error''\<rparr>\<rparr>,
      [])"
  by (simp add: verify_def internal_error_def)

theorem no_file_is_rejected_first_witness:
  "fst (verify offline call_a (Inr None)) =
     \<lparr>reply_code = 400,
      reply_body = empty_body
        \<lparr>body_status := Some ''ERROR'',
         body_message := Some ''No file uploaded. Please upload a PDF document.''\<rparr>\<rparr>
   \<and> snd (verify offline call_a (Inr None)) = []
   \<and> reply_code (fst (verify offline call_a not_multipart)) = 500
   \<and> snd (verify offline call_a not_multipart) = []"
  using no_file_is_rejected_first [of offline call_a "Fault ''the request is not multipart''"]
  by (simp add: not_multipart_def)

text \<open>
  A request that is not multipart has no multipart file field either, and the route does
  not answer it with the 400 reply: \<open>request.file()\<close> throws inside the \<open>try\<close>.
\<close>

theorem no_file_counterexample:
  "fst (verify offline call_a not_multipart) \<noteq>
     \<lparr>reply_code = 400,
      reply_body = empty_body
        \<lparr>body_status := Some ''ERROR'',
         body_message := Some ''No file uploaded. Please upload a PDF document.''\<rparr>\<rparr>
   \<and> reply_code (fst (verify offline call_a not_multipart)) = 500"
  by (simp add: verify_def not_multipart_def internal_error_def)

text \<open>
  Claim C1. A submission that fails validation has called the validator and nothing
  else; one that passes validation and fails the scan has called the validator and the
  scanner and nothing else. Whenever the extractor or the authority has been called,
  the request carried a file whose bytes passed both the validator and the scanner. The
  stages called are always an initial part of the sequence validator, scanner,
  extractor, authority.
\<close>

theorem no_stage_after_terminal_failure:
  "(toBuffer data = Inr buffer \<and> \<not> valid (validate pf buffer (filename data)) \<longrightarrow>
      snd (verify pf pc (Inr (Some data))) = [StructuralValidator])
   \<and> (toBuffer data = Inr buffer \<and> valid (validate pf buffer (filename data))
        \<and> \<not> safe (securityScan pf buffer) \<longrightarrow>
      snd (verify pf pc (Inr (Some data))) = [StructuralValidator, ThreatScanner])
   \<and> (MetadataExtractor \<in> set (snd (verify pf pc request_file))
        \<or> ExternalAuthority \<in> set (snd (verify pf pc request_file)) \<longrightarrow>
      (\<exists>d b. request_file = Inr (Some d) \<and> toBuffer d = Inr b
         \<and> valid (validate pf b (filename d)) \<and> safe (securityScan pf b)))
   \<and> prefix (snd (verify pf pc request_file))
        [StructuralValidator, ThreatScanner, MetadataExtractor, ExternalAuthority]"
proof (intro conjI impI)
  assume "toBuffer data = Inr buffer \<and> \<not> valid (validate pf buffer (filename data))"
  then show "snd (verify pf pc (Inr (Some data))) = [StructuralValidator]"
    by (simp add: verify_validation_failed)
next
  assume "toBuffer data = Inr buffer \<and> valid (validate pf buffer (filename data))
          \<and> \<not> safe (securityScan pf buffer)"
  then show "snd (verify pf pc (Inr (Some data))) = [StructuralValidator, ThreatScanner]"
    by (simp add: verify_security_failed)
next
  assume "MetadataExtractor \<in> set (snd (verify pf pc request_file))
          \<or> ExternalAuthority \<in> set (snd (verify pf pc request_file))"
  then show "\<exists>d b. request_file = Inr (Some d) \<and> toBuffer d = Inr b
         \<and> valid (validate pf b (filename d)) \<and> safe (securityScan pf b)"
    by (auto simp: verify_def Let_def split: sum.splits option.splits if_splits)
next
  show "prefix (snd (verify pf pc request_file))
        [StructuralValidator, ThreatScanner, MetadataExtractor, ExternalAuthority]"
    by (auto simp: verify_def Let_def split: sum.splits option.splits if_splits)
qed

theorem no_stage_after_terminal_failure_witness:
  "snd (verify (ascii_platform (Inr (Some (with_subject (Some ''doc-1'')))) (Inl (Fault ''fetch failed''))) call_a
         (Inr (Some (upload ''GIF89a'' ''doc.pdf'')))) = [StructuralValidator]
   \<and> snd (verify (ascii_platform (Inr (Some (with_subject (Some ''doc-1'')))) (Inl (Fault ''fetch failed''))) call_a
         (Inr (Some (upload ''%PDF-1.4 /JS'' ''doc.pdf'')))) = [StructuralValidator, ThreatScanner]
   \<and> MetadataExtractor \<in> set (snd (verify (ascii_platform (Inr (Some (with_subject None))) (Inl (Fault ''fetch failed''))) call_a
         (Inr (Some (upload ''%PDF-1.4 diploma'' ''Diploma.PDF'')))))
   \<and> valid (validate (ascii_platform (Inr (Some (with_subject None))) (Inl (Fault ''fetch failed'')))
         (Buffer_from ''%PDF-1.4 diploma'') (ascii ''Diploma.PDF''))
   \<and> safe (securityScan (ascii_platform (Inr (Some (with_subject None))) (Inl (Fault ''fetch failed'')))
         (Buffer_from ''%PDF-1.4 diploma''))"
proof -
  have ex: "MetadataExtractor \<in> set (snd (verify (ascii_platform (Inr (Some (with_subject None))) (Inl (Fault ''fetch failed''))) call_a
         (Inr (Some (upload ''%PDF-1.4 diploma'' ''Diploma.PDF'')))))"
    by (simp add: verify_not_a_credential [where buffer = "Buffer_from ''%PDF-1.4 diploma''"
          and metadata = "\<lparr>documentId = None, institutionId = Some ''inst-9'', documentHash = None, signature = None\<rparr>"]
        upload_def validate_example securityScan_example extractMetadata_example or_undefined_def truthy_string_def)
  show ?thesis
    using no_stage_after_terminal_failure [of "upload ''GIF89a'' ''doc.pdf''" "Buffer_from ''GIF89a''"
            "ascii_platform (Inr (Some (with_subject (Some ''doc-1'')))) (Inl (Fault ''fetch failed''))" call_a]
          no_stage_after_terminal_failure [of "upload ''%PDF-1.4 /JS'' ''doc.pdf''" "Buffer_from ''%PDF-1.4 /JS''"
            "ascii_platform (Inr (Some (with_subject (Some ''doc-1'')))) (Inl (Fault ''fetch failed''))" call_a]
          no_stage_after_terminal_failure [of _ _
            "ascii_platform (Inr (Some (with_subject None))) (Inl (Fault ''fetch failed''))" call_a
            "Inr (Some (upload ''%PDF-1.4 diploma'' ''Diploma.PDF''))"]
          ex
    by (auto simp: upload_def validate_gif validate_js securityScan_js)
qed

lemma verify_diploma:
  "verify (ascii_platform credential (answer 200 r)) pc diploma =
     (\<lparr>reply_code = 200,
       reply_body = success_body pc
         \<lparr>documentId = Some ''doc-1'', institutionId = Some ''inst-9'',
          documentHash = None, signature = None\<rparr> r\<rparr>,
      [StructuralValidator, ThreatScanner, MetadataExtractor, ExternalAuthority])"
  unfolding diploma_def
  by (rule verify_verified [where buffer = "Buffer_from ''%PDF-1.4 diploma''" and docId = "''doc-1''"
        and verifyResponse = "\<lparr>resp_status = 200, resp_json = Inr (Some r)\<rparr>"])
     (simp_all add: upload_def validate_example securityScan_example credential_def
        extractMetadata_example or_undefined_def truthy_string_def verify_url_example answer_def ok_def)

text \<open>
  Claim C2. For a submission that has passed the validator and the scanner: when the
  extracted \<open>documentId\<close> is absent the route answers 200 with status \<open>UNKNOWN\<close>, the
  reason \<open>No document ID found in metadata\<close> and \<open>details.isAcadCertDocument = false\<close>;
  when the authority responds 404 it answers 200, \<open>UNKNOWN\<close>, reason
  \<open>Document ID not recognized\<close>; when the authority responds with any other status
  outside 200 to 299 it answers 200, \<open>UNKNOWN\<close>, reason
  \<open>Verification service unavailable\<close>, with that status in \<open>details.httpStatus\<close>.
\<close>

theorem ambiguous_states_are_unknown:
  assumes "toBuffer data = Inr buffer"
    and "valid (validate pf buffer (filename data))"
    and "safe (securityScan pf buffer)"
    and "extractMetadata pf buffer = Inr metadata"
  shows "(\<not> truthy_string (documentId metadata) \<longrightarrow>
            fst (verify pf pc (Inr (Some data))) =
              \<lparr>reply_code = 200,
               reply_body = empty_body
                 \<lparr>body_status := Some ''UNKNOWN'',
                  body_valid := Some False,
                  body_message := Some ''This document does not appear to be an AcadCert credential'',
                  body_reason := Some ''No document ID found in metadata'',
                  body_details := Some (empty_details\<lparr>isAcadCertDocument := Some False\<rparr>)\<rparr>\<rparr>)
         \<and> (documentId metadata = Some docId \<and> docId \<noteq> []
              \<and> fetch pf (verify_url pf docId) = Inr verifyResponse
              \<and> resp_status verifyResponse = 404 \<longrightarrow>
            fst (verify pf pc (Inr (Some data))) =
              \<lparr>reply_code = 200,
               reply_body = empty_body
                 \<lparr>body_status := Some ''UNKNOWN'',
                  body_valid := Some False,
                  body_message := Some ''Document not found in AcadCert system'',
                  body_reason := Some ''Document ID not recognized'',
                  body_details := Some (empty_details\<lparr>details_documentId := Some docId\<rparr>)\<rparr>\<rparr>)
         \<and> (documentId metadata = Some docId \<and> docId \<noteq> []
              \<and> fetch pf (verify_url pf docId) = Inr verifyResponse
              \<and> \<not> ok verifyResponse \<and> resp_status verifyResponse \<noteq> 404 \<longrightarrow>
            fst (verify pf pc (Inr (Some data))) =
              \<lparr>reply_code = 200,
               reply_body = empty_body
                 \<lparr>body_status := Some ''UNKNOWN'',
                  body_valid := Some False,
                  body_message := Some ''Unable to verify document with issuing institution'',
                  body_reason := Some ''Verification service unavailable'',
                  body_details := Some (empty_details
                    \<lparr>details_documentId := Some docId,
                     httpStatus := Some (resp_status verifyResponse)\<rparr>)\<rparr>\<rparr>)"
proof (intro conjI impI)
  assume "\<not> truthy_string (documentId metadata)"
  then show "fst (verify pf pc (Inr (Some data))) =
              \<lparr>reply_code = 200,
               reply_body = empty_body
                 \<lparr>body_status := Some ''UNKNOWN'',
                  body_valid := Some False,
                  body_message := Some ''This document does not appear to be an AcadCert credential'',
                  body_reason := Some ''No document ID found in metadata'',
                  body_details := Some (empty_details\<lparr>isAcadCertDocument := Some False\<rparr>)\<rparr>\<rparr>"
    using assms by (simp add: verify_not_a_credential not_a_credential_def)
next
  assume a: "documentId metadata = Some docId \<and> docId \<noteq> []
              \<and> fetch pf (verify_url pf docId) = Inr verifyResponse
              \<and> resp_status verifyResponse = 404"
  then have "\<not> ok verifyResponse" by (simp add: ok_def)
  with a show "fst (verify pf pc (Inr (Some data))) =
              \<lparr>reply_code = 200,
               reply_body = empty_body
                 \<lparr>body_status := Some ''UNKNOWN'',
                  body_valid := Some False,
                  body_message := Some ''Document not found in AcadCert system'',
                  body_reason := Some ''Document ID not recognized'',
                  body_details := Some (empty_details\<lparr>details_documentId := Some docId\<rparr>)\<rparr>\<rparr>"
    using assms verify_not_ok [of data buffer pf metadata docId verifyResponse pc] by simp
next
  assume a: "documentId metadata = Some docId \<and> docId \<noteq> []
              \<and> fetch pf (verify_url pf docId) = Inr verifyResponse
              \<and> \<not> ok verifyResponse \<and> resp_status verifyResponse \<noteq> 404"
  then show "fst (verify pf pc (Inr (Some data))) =
              \<lparr>reply_code = 200,
               reply_body = empty_body
                 \<lparr>body_status := Some ''UNKNOWN'',
                  body_valid := Some False,
                  body_message := Some ''Unable to verify document with issuing institution'',
                  body_reason := Some ''Verification service unavailable'',
                  body_details := Some (empty_details
                    \<lparr>details_documentId := Some docId,
                     httpStatus := Some (resp_status verifyResponse)\<rparr>)\<rparr>\<rparr>"
    using assms verify_not_ok [of data buffer pf metadata docId verifyResponse pc] by simp
qed

theorem ambiguous_states_are_unknown_witness:
  "fst (verify (ascii_platform (Inr (Some (with_subject None))) (Inl (Fault ''fetch failed''))) call_a diploma) =
     \<lparr>reply_code = 200,
      reply_body = empty_body
        \<lparr>body_status := Some ''UNKNOWN'',
         body_valid := Some False,
         body_message := Some ''This document does not appear to be an AcadCert credential'',
         body_reason := Some ''No document ID found in metadata'',
         body_details := Some (empty_details\<lparr>isAcadCertDocument := Some False\<rparr>)\<rparr>\<rparr>
   \<and> fst (verify (ascii_platform credential
              (Inr \<lparr>resp_status = 404, resp_json = Inl (Fault ''Unexpected token'')\<rparr>)) call_a diploma) =
     \<lparr>reply_code = 200,
      reply_body = empty_body
        \<lparr>body_status := Some ''UNKNOWN'',
         body_valid := Some False,
         body_message := Some ''Document not found in AcadCert system'',
         body_reason := Some ''Document ID not recognized'',
         body_details := Some (empty_details\<lparr>details_documentId := Some ''doc-1''\<rparr>)\<rparr>\<rparr>
   \<and> fst (verify (ascii_platform credential
              (Inr \<lparr>resp_status = 503, resp_json = Inl (Fault ''Unexpected token'')\<rparr>)) call_a diploma) =
     \<lparr>reply_code = 200,
      reply_body = empty_body
        \<lparr>body_status := Some ''UNKNOWN'',
         body_valid := Some False,
         body_message := Some ''Unable to verify document with issuing institution'',
         body_reason := Some ''Verification service unavailable'',
         body_details := Some (empty_details
           \<lparr>details_documentId := Some ''doc-1'', httpStatus := Some 503\<rparr>)\<rparr>\<rparr>"
  using ambiguous_states_are_unknown [of "upload ''%PDF-1.4 diploma'' ''Diploma.PDF''" "Buffer_from ''%PDF-1.4 diploma''"
          "ascii_platform (Inr (Some (with_subject None))) (Inl (Fault ''fetch failed''))"
          "\<lparr>documentId = None, institutionId = Some ''inst-9'', documentHash = None, signature = None\<rparr>" call_a]
        ambiguous_states_are_unknown [of "upload ''%PDF-1.4 diploma'' ''Diploma.PDF''" "Buffer_from ''%PDF-1.4 diploma''"
          "ascii_platform credential (Inr \<lparr>resp_status = 404, resp_json = Inl (Fault ''Unexpected token'')\<rparr>)"
          "\<lparr>documentId = Some ''doc-1'', institutionId = Some ''inst-9'', documentHash = None, signature = None\<rparr>" call_a
          "''doc-1''" "\<lparr>resp_status = 404, resp_json = Inl (Fault ''Unexpected token'')\<rparr>"]
        ambiguous_states_are_unknown [of "upload ''%PDF-1.4 diploma'' ''Diploma.PDF''" "Buffer_from ''%PDF-1.4 diploma''"
          "ascii_platform credential (Inr \<lparr>resp_status = 503, resp_json = Inl (Fault ''Unexpected token'')\<rparr>)"
          "\<lparr>documentId = Some ''doc-1'', institutionId = Some ''inst-9'', documentHash = None, signature = None\<rparr>" call_a
          "''doc-1''" "\<lparr>resp_status = 503, resp_json = Inl (Fault ''Unexpected token'')\<rparr>"]
  by (simp add: diploma_def upload_def validate_example securityScan_example credential_def
      extractMetadata_example or_undefined_def truthy_string_def verify_url_example ok_def)

section \<open>The verified path\<close>

text \<open>
  Claim C7, as amended. The message follows the precedence: status \<open>ACTIVE\<close> with
  \<open>valid\<close> true gives the valid message; status \<open>REVOKED\<close> the revoked message; status
  \<open>SUPERSEDED\<close> the superseded message; otherwise \<open>valid\<close> not true (false or absent)
  with a non-empty \<open>errors\<close> list gives \<open>Invalid Document - \<close> followed by the first
  error; \<open>valid\<close> not true with an absent or empty \<open>errors\<close> list gives the message
  that the document has been tampered with or is not authentic; and only the remaining
  case, \<open>valid\<close> true with a status that is none of the three, gives the generic
  message. On the verified path the reply carries this message, and \<open>receipt.result\<close>
  is \<open>VALID\<close> exactly when \<open>valid\<close> is true.
\<close>

theorem status_message_precedence:
  "(vr_status result = Some ''ACTIVE'' \<and> vr_valid result = Some True \<longrightarrow>
      getStatusMessage result = ''Valid Document - Issued by institution and currently active'')
   \<and> (vr_status result = Some ''REVOKED'' \<longrightarrow>
      getStatusMessage result
        = ''Document Revoked - Issuing institution has invalidated this document'')
   \<and> (vr_status result = Some ''SUPERSEDED'' \<longrightarrow>
      getStatusMessage result
        = ''Document Superseded - This document has been replaced by a newer version'')
   \<and> (vr_status result \<noteq> Some ''REVOKED'' \<and> vr_status result \<noteq> Some ''SUPERSEDED''
        \<and> vr_valid result \<noteq> Some True \<and> vr_errors result = Some (e # es) \<longrightarrow>
      getStatusMessage result = ''Invalid Document - '' @ e)
   \<and> (vr_status result \<noteq> Some ''REVOKED'' \<and> vr_status result \<noteq> Some ''SUPERSEDED''
        \<and> vr_valid result \<noteq> Some True
        \<and> (vr_errors result = None \<or> vr_errors result = Some []) \<longrightarrow>
      getStatusMessage result
        = ''Invalid Document - Document has been tampered with or is not authentic'')
   \<and> (vr_status result \<noteq> Some ''ACTIVE'' \<and> vr_status result \<noteq> Some ''REVOKED''
        \<and> vr_status result \<noteq> Some ''SUPERSEDED'' \<and> vr_valid result = Some True \<longrightarrow>
      getStatusMessage result = ''Document status could not be determined'')
   \<and> (toBuffer data = Inr buffer \<and> valid (validate pf buffer (filename data))
        \<and> safe (securityScan pf buffer) \<and> extractMetadata pf buffer = Inr metadata
        \<and> documentId metadata = Some docId \<and> docId \<noteq> []
        \<and> fetch pf (verify_url pf docId) = Inr verifyResponse \<and> ok verifyResponse
        \<and> resp_json verifyResponse = Inr (Some result) \<longrightarrow>
      body_message (reply_body (fst (verify pf pc (Inr (Some data)))))
        = Some (getStatusMessage result)
      \<and> map_option receipt_result (body_receipt (reply_body (fst (verify pf pc (Inr (Some data))))))
        = Some (if vr_valid result = Some True then ''VALID'' else ''INVALID''))"
proof -
  have tb: "\<And>x. truthy_bool x = (x = Some True)"
    by (simp add: truthy_bool_def split: option.split)
  have msg: "(vr_status result = Some ''ACTIVE'' \<and> vr_valid result = Some True \<longrightarrow>
      getStatusMessage result = ''Valid Document - Issued by institution and currently active'')
   \<and> (vr_status result = Some ''REVOKED'' \<longrightarrow>
      getStatusMessage result
        = ''Document Revoked - Issuing institution has invalidated this document'')
   \<and> (vr_status result = Some ''SUPERSEDED'' \<longrightarrow>
      getStatusMessage result
        = ''Document Superseded - This document has been replaced by a newer version'')
   \<and> (vr_status result \<noteq> Some ''REVOKED'' \<and> vr_status result \<noteq> Some ''SUPERSEDED''
        \<and> vr_valid result \<noteq> Some True \<and> vr_errors result = Some (e # es) \<longrightarrow>
      getStatusMessage result = ''Invalid Document - '' @ e)
   \<and> (vr_status result \<noteq> Some ''REVOKED'' \<and> vr_status result \<noteq> Some ''SUPERSEDED''
        \<and> vr_valid result \<noteq> Some True
        \<and> (vr_errors result = None \<or> vr_errors result = Some []) \<longrightarrow>
      getStatusMessage result
        = ''Invalid Document - Document has been tampered with or is not authentic'')
   \<and> (vr_status result \<noteq> Some ''ACTIVE'' \<and> vr_status result \<noteq> Some ''REVOKED''
        \<and> vr_status result \<noteq> Some ''SUPERSEDED'' \<and> vr_valid result = Some True \<longrightarrow>
      getStatusMessage result = ''Document status could not be determined'')"
    by (auto simp: getStatusMessage_def tb)
  have path: "toBuffer data = Inr buffer \<and> valid (validate pf buffer (filename data))
        \<and> safe (securityScan pf buffer) \<and> extractMetadata pf buffer = Inr metadata
        \<and> documentId metadata = Some docId \<and> docId \<noteq> []
        \<and> fetch pf (verify_url pf docId) = Inr verifyResponse \<and> ok verifyResponse
        \<and> resp_json verifyResponse = Inr (Some result) \<longrightarrow>
      body_message (reply_body (fst (verify pf pc (Inr (Some data)))))
        = Some (getStatusMessage result)
      \<and> map_option receipt_result (body_receipt (reply_body (fst (verify pf pc (Inr (Some data))))))
        = Some (if vr_valid result = Some True then ''VALID'' else ''INVALID'')"
    by (simp add: verify_verified success_body_def tb)
  from msg path show ?thesis by simp
qed

theorem status_message_precedence_witness:
  "getStatusMessage active_result = ''Valid Document - Issued by institution and currently active''
   \<and> getStatusMessage (active_result\<lparr>vr_status := Some ''REVOKED'', vr_valid := Some False\<rparr>)
       = ''Document Revoked - Issuing institution has invalidated this document''
   \<and> getStatusMessage (active_result\<lparr>vr_status := Some ''SUPERSEDED''\<rparr>)
       = ''Document Superseded - This document has been replaced by a newer version''
   \<and> getStatusMessage (active_but_invalid\<lparr>vr_errors := Some [''Signature mismatch'', ''Hash mismatch'']\<rparr>)
       = ''Invalid Document - Signature mismatch''
   \<and> getStatusMessage active_but_invalid
       = ''Invalid Document - Document has been tampered with or is not authentic''
   \<and> getStatusMessage (active_result\<lparr>vr_status := Some ''PENDING''\<rparr>)
       = ''Document status could not be determined''
   \<and> body_message (reply_body (fst (verify (ascii_platform credential (answer 200 active_result)) call_a diploma)))
       = Some ''Valid Document - Issued by institution and currently active''
   \<and> map_option receipt_result (body_receipt (reply_body (fst
         (verify (ascii_platform credential (answer 200 active_result)) call_a diploma))))
       = Some ''VALID''
   \<and> map_option receipt_result (body_receipt (reply_body (fst
         (verify (ascii_platform credential (answer 200 active_but_invalid)) call_a diploma))))
       = Some ''INVALID''"
  using status_message_precedence [of active_result]
        status_message_precedence [of "active_result\<lparr>vr_status := Some ''REVOKED'', vr_valid := Some False\<rparr>"]
        status_message_precedence [of "active_result\<lparr>vr_status := Some ''SUPERSEDED''\<rparr>"]
        status_message_precedence [of "active_but_invalid\<lparr>vr_errors := Some [''Signature mismatch'', ''Hash mismatch'']\<rparr>" "''Signature mismatch''" "[''Hash mismatch'']"]
        status_message_precedence [of active_but_invalid]
        status_message_precedence [of "active_result\<lparr>vr_status := Some ''PENDING''\<rparr>"]
        status_message_precedence [of active_result _ _ "upload ''%PDF-1.4 diploma'' ''Diploma.PDF''"
          "Buffer_from ''%PDF-1.4 diploma''" "ascii_platform credential (answer 200 active_result)"
          "\<lparr>documentId = Some ''doc-1'', institutionId = Some ''inst-9'', documentHash = None, signature = None\<rparr>"
          "''doc-1''" "\<lparr>resp_status = 200, resp_json = Inr (Some active_result)\<rparr>" call_a]
        status_message_precedence [of active_but_invalid _ _ "upload ''%PDF-1.4 diploma'' ''Diploma.PDF''"
          "Buffer_from ''%PDF-1.4 diploma''" "ascii_platform credential (answer 200 active_but_invalid)"
          "\<lparr>documentId = Some ''doc-1'', institutionId = Some ''inst-9'', documentHash = None, signature = None\<rparr>"
          "''doc-1''" "\<lparr>resp_status = 200, resp_json = Inr (Some active_but_invalid)\<rparr>" call_a]
  by (simp add: active_result_def active_but_invalid_def diploma_def upload_def validate_example
      securityScan_example credential_def extractMetadata_example or_undefined_def
      truthy_string_def verify_url_example answer_def ok_def)

text \<open>
  The precedence in the words of the specification sends an answer with \<open>valid\<close> false
  and no \<open>errors\<close> to the generic message; the code has a branch of its own for it.
\<close>

theorem status_message_counterexample:
  "getStatusMessage active_but_invalid \<noteq> claimed_status_message active_but_invalid"
  by (simp add: getStatusMessage_def claimed_status_message_def active_but_invalid_def truthy_bool_def)

lemma reply_independent_of_call:
  "without_per_call_fields (fst (verify pf pc1 request_file))
     = without_per_call_fields (fst (verify pf pc2 request_file))"
  by (auto simp: verify_def Let_def success_body_def without_per_call_fields_def
      split: sum.splits option.splits)

lemma stages_independent_of_call:
  "snd (verify pf pc1 request_file) = snd (verify pf pc2 request_file)"
  by (auto simp: verify_def Let_def split: sum.splits option.splits)

lemma receipt_only_on_success:
  "body_receipt (reply_body (fst (verify pf pc request_file))) \<noteq> None \<Longrightarrow>
   body_verifiedAt (reply_body (fst (verify pf pc request_file))) = Some (date1 pc)
   \<and> map_option receipt_verifiedAt (body_receipt (reply_body (fst (verify pf pc request_file))))
        = Some (date2 pc)
   \<and> map_option receipt_id (body_receipt (reply_body (fst (verify pf pc request_file))))
        = Some (''rcpt_'' @ toString_hex (randomBytes12 pc))"
  by (auto simp: verify_def Let_def success_body_def empty_body_def internal_error_def
      not_a_credential_def split: sum.splits option.splits if_splits)

text \<open>
  Claim C8. Two calls with the same request and the same collaborators (the same answer
  of the PDF library and of the authority) give the same reply once \<open>verifiedAt\<close>,
  \<open>receipt.verifiedAt\<close> and \<open>receipt.id\<close> are blanked, and call the same stages. In a
  reply that has a receipt these three fields are the clock readings and the random
  bytes of the call.
\<close>

theorem same_document_same_outcome:
  "without_per_call_fields (fst (verify pf pc1 request_file))
     = without_per_call_fields (fst (verify pf pc2 request_file))
   \<and> snd (verify pf pc1 request_file) = snd (verify pf pc2 request_file)
   \<and> (body_receipt (reply_body (fst (verify pf pc1 request_file))) \<noteq> None \<longrightarrow>
        body_verifiedAt (reply_body (fst (verify pf pc1 request_file))) = Some (date1 pc1)
        \<and> map_option receipt_verifiedAt (body_receipt (reply_body (fst (verify pf pc1 request_file))))
             = Some (date2 pc1)
        \<and> map_option receipt_id (body_receipt (reply_body (fst (verify pf pc1 request_file))))
             = Some (''rcpt_'' @ toString_hex (randomBytes12 pc1)))"
  using reply_independent_of_call [of pf pc1 request_file pc2]
        stages_independent_of_call [of pf pc1 request_file pc2]
        receipt_only_on_success [of pf pc1 request_file]
  by blast

theorem same_document_same_outcome_witness:
  "map_option receipt_id (body_receipt (reply_body (fst
       (verify (ascii_platform credential (answer 200 active_result)) call_a diploma))))
     = Some ''rcpt_000102030405060708090aff''
   \<and> map_option receipt_id (body_receipt (reply_body (fst
       (verify (ascii_platform credential (answer 200 active_result)) call_b diploma))))
     = Some ''rcpt_ab0102030405060708090a0b''
   \<and> body_verifiedAt (reply_body (fst
       (verify (ascii_platform credential (answer 200 active_result)) call_a diploma)))
     = Some ''2024-01-01T00:00:00.000Z''
   \<and> without_per_call_fields (fst
       (verify (ascii_platform credential (answer 200 active_result)) call_a diploma))
     = without_per_call_fields (fst
       (verify (ascii_platform credential (answer 200 active_result)) call_b diploma))"
proof -
  have a: "body_receipt (reply_body (fst
       (verify (ascii_platform credential (answer 200 active_result)) call_a diploma))) \<noteq> None"
    by (simp add: verify_diploma success_body_def)
  have b: "body_receipt (reply_body (fst
       (verify (ascii_platform credential (answer 200 active_result)) call_b diploma))) \<noteq> None"
    by (simp add: verify_diploma success_body_def)
  have ha: "toString_hex (randomBytes12 call_a) = ''000102030405060708090aff''"
    by (simp add: call_a_def toString_hex_def hex_digit_def)
  have hb: "toString_hex (randomBytes12 call_b) = ''ab0102030405060708090a0b''"
    by (simp add: call_b_def toString_hex_def hex_digit_def)
  have da: "date1 call_a = ''2024-01-01T00:00:00.000Z''"
    by (simp add: call_a_def)
  show ?thesis
    using same_document_same_outcome [of "ascii_platform credential (answer 200 active_result)" call_a diploma call_b]
          same_document_same_outcome [of "ascii_platform credential (answer 200 active_result)" call_b diploma call_a]
          a b
    by (simp add: ha hb da)
qed

end
